theory Spec2Isabelle
  imports Complex_Main "HOL-Library.Sublist"
begin

section \<open>Data model\<close>

text \<open>
  Python exceptions that the modelled functions can meet. \<open>External\<close> stands for any
  \<^verbatim>\<open>Exception\<close> raised by the FastF1 client, the file system or a subprocess.
\<close>

datatype exn = IndexError | KeyError | ValueError | UnicodeEncodeError | UnicodeDecodeError
  | FileNotFoundError | External string

fun exn_message :: "exn \<Rightarrow> string" where
  "exn_message (External m) = m"
| "exn_message IndexError = ''single positional indexer is out-of-bounds''"
| "exn_message KeyError = ''KeyError''"
| "exn_message ValueError = ''ValueError''"
| "exn_message UnicodeEncodeError = ''UnicodeEncodeError''"
| "exn_message UnicodeDecodeError = ''UnicodeDecodeError''"
| "exn_message FileNotFoundError = ''FileNotFoundError''"

text \<open>
  One row of the frame that \<^verbatim>\<open>lap.get_telemetry()\<close> returns, restricted to the columns
  that \<^verbatim>\<open>required_cols\<close> keeps. The numeric columns are float64 in pandas; they are
  idealised as reals (no rounding); a value that may be NaN or NaT is an \<open>option\<close>.
\<close>

record car_row =
  Speed :: real
  RPM :: real
  Throttle :: real
  Brake :: real
  DRS :: real
  nGear :: real
  X :: real
  Y :: real

text \<open>
  One row of \<^verbatim>\<open>session.laps\<close>. Times are seconds, \<open>None\<close> is NaT. The field
  \<open>get_telemetry\<close> is the outcome of calling \<^verbatim>\<open>lap.get_telemetry()\<close> on this row: the
  frame, or the exception the client raises. The columns \<^verbatim>\<open>LapNumber\<close> and \<^verbatim>\<open>LapTime\<close>
  exist on laps and on telemetry rows alike; on a lap they are written \<open>lap.LapNumber\<close>
  and \<open>lap.LapTime\<close>.
\<close>

record lap =
  LapNumber :: int
  IsAccurate :: bool
  LapTime :: "real option"
  PitOutTime :: "real option"
  PitInTime :: "real option"
  get_telemetry :: "exn + car_row list"

text \<open>
  One row of a telemetry frame after \<^verbatim>\<open>process_driver_data\<close> has added the distance
  and stamped \<^verbatim>\<open>LapNumber\<close>, \<^verbatim>\<open>Driver\<close> and \<^verbatim>\<open>LapTime\<close>. A frame is the list of its
  rows in positional order; \<open>driver_data\<close> is the dict from driver code to frame.
\<close>

record sample = car_row +
  Distance :: real
  LapNumber :: int
  Driver :: string
  LapTime :: "real option"

type_synonym frame = "sample list"
type_synonym driver_data = "string \<rightharpoonup> frame"

text \<open>
  The session handle, as far as \<^verbatim>\<open>process_driver_data\<close> uses it:
  \<^verbatim>\<open>_session.laps.pick_drivers(driver_code)\<close> yields that driver's laps or raises.
\<close>

record session =
  pick_drivers :: "string \<Rightarrow> exn + lap list"

text \<open>
  A Plotly figure, as far as the functions of \<^verbatim>\<open>f1_functions.py\<close> read or write it:
  the list \<^verbatim>\<open>fig.data\<close> of scatter traces, the vertical reference lines and the layout's
  title and height. Grid colours, fonts and margins are constants of the source and are
  left out. A hover template is a fixed text, the f-string
  \<^verbatim>\<open>'<b>Current Position</b><br>Distance: {actual_distance:.1f}m<extra></extra>'\<close> kept as
  the distance it embeds (the one-decimal formatting is not modelled), or the per-metric
  template of the comparison plot, kept as driver code and metric title.
\<close>

datatype hover = Skip | Template string | CurrentPosition real | MetricHover string string

datatype title = NoTitle | TrackMapTitle | TelemetryTitle int

record scatter =
  scatter_x :: "real list"
  scatter_y :: "real list"
  mode :: string
  name :: string
  line_color :: string
  hovertemplate :: hover
  showlegend :: bool
  subplot_row :: nat

record vline =
  vline_x :: real
  annotation_text :: real
  vline_row :: nat

record figure =
  data :: "scatter list"
  vlines :: "vline list"
  layout_title :: title
  layout_height :: "nat option"

definition Figure :: figure where
  "Figure = \<lparr>data = [], vlines = [], layout_title = NoTitle, layout_height = None\<rparr>"

definition add_trace :: "scatter \<Rightarrow> figure \<Rightarrow> figure" where
  "add_trace t fig = fig\<lparr>data := data fig @ [t]\<rparr>"

definition add_vline :: "vline \<Rightarrow> figure \<Rightarrow> figure" where
  "add_vline v fig = fig\<lparr>vlines := vlines fig @ [v]\<rparr>"

section \<open>Event schedule\<close>





section \<open>Lap filter and telemetry aligner\<close>

text \<open>Element-wise \<^verbatim>\<open>&\<close> of two boolean series and selection of rows by a boolean
  mask (\<^verbatim>\<open>df.loc[mask]\<close>).\<close>

definition series_and :: "bool list \<Rightarrow> bool list \<Rightarrow> bool list" where
  "series_and a b = map (\<lambda>(p, q). p \<and> q) (zip a b)"

definition loc_mask :: "'a list \<Rightarrow> bool list \<Rightarrow> 'a list" where
  "loc_mask df keep = map fst (filter snd (zip df keep))"

definition valid_laps :: "lap list \<Rightarrow> lap list" where
  "valid_laps driver_laps =
     loc_mask driver_laps
       (series_and
          (series_and
             (series_and (map (\<lambda>l. IsAccurate l = True) driver_laps)
                         (map (\<lambda>l. lap.LapTime l \<noteq> None) driver_laps))
             (map (\<lambda>l. PitOutTime l = None) driver_laps))
          (map (\<lambda>l. PitInTime l = None) driver_laps))"

text \<open>\<^verbatim>\<open>Series.unique()\<close>: the distinct values in order of first appearance.\<close>

definition unique :: "'a list \<Rightarrow> 'a list" where
  "unique xs = rev (remdups (rev xs))"

text \<open>
  Modelled from the spec: \<^verbatim>\<open>Telemetry.add_distance\<close>, a method of the FastF1 library
  whose code is not part of this repository. The spec describes the column it adds as the
  cumulative arc length along the driven path, derived from successive position deltas:
  the first row is at 0 and every further row adds the Euclidean distance from the row
  before it.
\<close>

fun cumulative_distance :: "real \<Rightarrow> real \<times> real \<Rightarrow> car_row list \<Rightarrow> real list" where
  "cumulative_distance acc prev [] = []"
| "cumulative_distance acc prev (r # rs) =
     (let acc' = acc + sqrt ((X r - fst prev)\<^sup>2 + (Y r - snd prev)\<^sup>2)
      in acc' # cumulative_distance acc' (X r, Y r) rs)"

definition add_distance :: "car_row list \<Rightarrow> real list" where
  "add_distance telemetry =
     (case telemetry of [] \<Rightarrow> [] | r # rs \<Rightarrow> 0 # cumulative_distance 0 (X r, Y r) rs)"

text \<open>
  The body of the inner \<^verbatim>\<open>try\<close>: fetch the lap's telemetry, give up on an empty frame
  (\<open>Inr None\<close>, the \<^verbatim>\<open>continue\<close>), else add the distance column and stamp every row.
\<close>

definition stamp :: "string \<Rightarrow> int \<Rightarrow> real option \<Rightarrow> car_row \<times> real \<Rightarrow> sample" where
  "stamp driver_code lap_number lap_time rd =
     \<lparr>Speed = Speed (fst rd), RPM = RPM (fst rd), Throttle = Throttle (fst rd),
      Brake = Brake (fst rd), DRS = DRS (fst rd), nGear = nGear (fst rd),
      X = X (fst rd), Y = Y (fst rd), Distance = snd rd,
      LapNumber = lap_number, Driver = driver_code, LapTime = lap_time\<rparr>"

definition lap_telemetry :: "string \<Rightarrow> int \<Rightarrow> lap \<Rightarrow> exn + frame option" where
  "lap_telemetry driver_code lap_number l =
     (case get_telemetry l of
        Inl e \<Rightarrow> Inl e
      | Inr telemetry \<Rightarrow>
          if telemetry = [] then Inr None
          else Inr (Some (map (stamp driver_code lap_number (lap.LapTime l))
                            (zip telemetry (add_distance telemetry)))))"

text \<open>
  The loop over \<^verbatim>\<open>valid_laps['LapNumber'].unique()\<close>. The state is the pair of lists
  \<^verbatim>\<open>driver_telemetry_laps\<close> and \<^verbatim>\<open>all_laps_telemetry\<close>; the first component of the result
  is the exception that left the loop, if any, with the lists as they were at that moment.
  The row lookup \<^verbatim>\<open>.iloc[0]\<close> stands outside the inner \<^verbatim>\<open>try\<close>, so its
  \<^verbatim>\<open>IndexError\<close> leaves the loop; an exception of the inner body only skips the lap.
\<close>

fun lap_loop ::
  "string \<Rightarrow> lap list \<Rightarrow> int list \<Rightarrow> frame list \<times> frame list
     \<Rightarrow> exn option \<times> frame list \<times> frame list" where
  "lap_loop driver_code valid [] (dtl, allt) = (None, dtl, allt)"
| "lap_loop driver_code valid (lap_number # ns) (dtl, allt) =
     (case filter (\<lambda>l. lap.LapNumber l = lap_number) valid of
        [] \<Rightarrow> (Some IndexError, dtl, allt)
      | l # _ \<Rightarrow>
          (case lap_telemetry driver_code lap_number l of
             Inl e \<Rightarrow> lap_loop driver_code valid ns (dtl, allt)
           | Inr None \<Rightarrow> lap_loop driver_code valid ns (dtl, allt)
           | Inr (Some telemetry) \<Rightarrow>
               lap_loop driver_code valid ns (dtl @ [telemetry], allt @ [telemetry])))"

text \<open>
  The state of \<^verbatim>\<open>process_driver_data\<close>: the dict \<^verbatim>\<open>driver_data\<close>, the list
  \<^verbatim>\<open>all_laps_telemetry\<close> and the warnings shown so far. The progress bar only draws.
\<close>

record pd_state =
  pd_driver_data :: driver_data
  pd_all_laps_telemetry :: "frame list"
  pd_warnings :: "string list"

text \<open>The body of the outer \<^verbatim>\<open>try\<close> for one driver; \<open>Some e\<close> is an exception that
  leaves it.\<close>

definition driver_body :: "session \<Rightarrow> string \<Rightarrow> pd_state \<Rightarrow> exn option \<times> pd_state" where
  "driver_body s driver_code st =
     (case pick_drivers s driver_code of
        Inl e \<Rightarrow> (Some e, st)
      | Inr driver_laps \<Rightarrow>
          if driver_laps = [] then (None, st)
          else
            (let valid = valid_laps driver_laps in
             if valid = [] then (None, st)
             else
               (case lap_loop driver_code valid (unique (map lap.LapNumber valid))
                       ([], pd_all_laps_telemetry st) of
                  (Some e, dtl, allt) \<Rightarrow> (Some e, st\<lparr>pd_all_laps_telemetry := allt\<rparr>)
                | (None, dtl, allt) \<Rightarrow>
                    (None,
                     if dtl \<noteq> []
                     then st\<lparr>pd_driver_data := (pd_driver_data st)(driver_code \<mapsto> concat dtl),
                             pd_all_laps_telemetry := allt\<rparr>
                     else st\<lparr>pd_all_laps_telemetry := allt\<rparr>))))"



definition pd_init :: pd_state where
  "pd_init = \<lparr>pd_driver_data = Map.empty, pd_all_laps_telemetry = [], pd_warnings = []\<rparr>"


section \<open>Nearest-position locator\<close>

text \<open>
  \<^verbatim>\<open>Series.min()\<close> on the lap-number column: NaN on an empty frame, here \<open>None\<close>.
\<close>

definition series_min :: "int list \<Rightarrow> int option" where
  "series_min ns = (case ns of [] \<Rightarrow> None | n # ns' \<Rightarrow> Some (fold min ns' n))"

text \<open>
  \<^verbatim>\<open>df[df['LapNumber'] == v]\<close>: the rows whose lap number equals \<open>v\<close>, in frame order.
  A comparison with NaN is false on every row.
\<close>

definition lap_rows :: "frame \<Rightarrow> int option \<Rightarrow> frame" where
  "lap_rows df v = (case v of None \<Rightarrow> [] | Some n \<Rightarrow> filter (\<lambda>s. LapNumber s = n) df)"

text \<open>
  The first driver's lowest-numbered lap, the reference trace of both
  \<^verbatim>\<open>create_track_plot\<close> and \<^verbatim>\<open>update_track_marker\<close>.
\<close>

definition track_data :: "frame \<Rightarrow> frame" where
  "track_data first_driver_data =
     lap_rows first_driver_data (series_min (map LapNumber first_driver_data))"

text \<open>
  \<^verbatim>\<open>Series.idxmin()\<close>: a left-to-right scan that keeps the position of the smallest value
  seen so far and replaces it only by a strictly smaller one; \<^verbatim>\<open>ValueError\<close> on an empty
  series. The frame's index labels are unique (\<^verbatim>\<open>ignore_index=True\<close>), so the label that
  pandas returns and \<^verbatim>\<open>.loc\<close> resolves is modelled by the position inside the trace.
\<close>

fun idxmin_scan :: "real list \<Rightarrow> nat \<Rightarrow> nat \<Rightarrow> real \<Rightarrow> nat" where
  "idxmin_scan [] i best v = best"
| "idxmin_scan (w # ws) i best v =
     (if w < v then idxmin_scan ws (Suc i) i w else idxmin_scan ws (Suc i) best v)"

definition idxmin :: "real list \<Rightarrow> exn + nat" where
  "idxmin vs = (case vs of [] \<Rightarrow> Inl ValueError | v # ws \<Rightarrow> Inr (idxmin_scan ws 1 0 v))"

text \<open>
  \<^verbatim>\<open>update_track_marker\<close> mutates the figure it is given; the model returns the figure
  after the call.
\<close>

definition update_track_marker ::
  "figure \<Rightarrow> driver_data \<Rightarrow> string list \<Rightarrow> real \<Rightarrow> exn + figure" where
  "update_track_marker fig driver_data selected_drivers selected_distance =
     (case selected_drivers of
        [] \<Rightarrow> Inr fig
      | first_driver # _ \<Rightarrow>
          (case driver_data first_driver of
             None \<Rightarrow> Inr fig
           | Some first_driver_data \<Rightarrow>
               (let trace = track_data first_driver_data in
                if trace = [] then Inr fig
                else
                  (let distances = map (\<lambda>s. \<bar>Distance s - selected_distance\<bar>) trace in
                   case idxmin distances of
                     Inl e \<Rightarrow> Inl e
                   | Inr closest_idx \<Rightarrow>
                       (let marker_x = X (trace ! closest_idx);
                            marker_y = Y (trace ! closest_idx);
                            actual_distance = Distance (trace ! closest_idx)
                        in if length (data fig) > 1
                           then Inr (fig\<lparr>data := (data fig)
                                  [1 := (data fig ! 1)\<lparr>scatter_x := [marker_x],
                                                         scatter_y := [marker_y],
                                                         hovertemplate := CurrentPosition actual_distance\<rparr>]\<rparr>)
                           else Inr fig)))))"

text \<open>
  \<^verbatim>\<open>create_track_plot\<close>: the outline of the reference trace and, as the second trace, the
  marker that \<^verbatim>\<open>update_track_marker\<close> later moves.
\<close>

definition create_track_plot :: "driver_data \<Rightarrow> string list \<Rightarrow> nat \<Rightarrow> figure" where
  "create_track_plot driver_data selected_drivers h =
     (case selected_drivers of
        [] \<Rightarrow> Figure
      | first_driver # _ \<Rightarrow>
          (case driver_data first_driver of
             None \<Rightarrow> Figure
           | Some first_driver_data \<Rightarrow>
               (case track_data first_driver_data of
                  [] \<Rightarrow> Figure
                | s0 # rest \<Rightarrow>
                    (add_trace
                       \<lparr>scatter_x = [X s0], scatter_y = [Y s0], mode = ''markers'',
                        name = ''Current Position'', line_color = ''#FF6B35'',
                        hovertemplate =
                          Template ''<b>Current Position</b><br>Distance: 0m<extra></extra>'',
                        showlegend = False, subplot_row = 1\<rparr>
                       (add_trace
                          \<lparr>scatter_x = map X (s0 # rest), scatter_y = map Y (s0 # rest),
                           mode = ''lines'', name = ''Track Layout'', line_color = ''#666666'',
                           hovertemplate = Skip, showlegend = False, subplot_row = 1\<rparr>
                          Figure))
                    \<lparr>layout_title := TrackMapTitle, layout_height := Some h\<rparr>)))"

section \<open>Lap summary statistics\<close>

text \<open>
  \<^verbatim>\<open>Series.max()\<close> and \<^verbatim>\<open>Series.mean()\<close>: NaN (\<open>None\<close>) on an empty series. The DRS
  percentage divides a count by \<^verbatim>\<open>len(lap_data)\<close>; a NumPy division by zero gives NaN
  and does not raise.
\<close>

definition series_max :: "real list \<Rightarrow> real option" where
  "series_max vs = (case vs of [] \<Rightarrow> None | v # ws \<Rightarrow> Some (fold max ws v))"

definition series_mean :: "real list \<Rightarrow> real option" where
  "series_mean vs = (if vs = [] then None else Some (sum_list vs / real (length vs)))"

definition drs_usage_of :: "frame \<Rightarrow> real option" where
  "drs_usage_of lap_data =
     (if length lap_data = 0 then None
      else Some (real (length (filter (\<lambda>s. DRS s > 0) lap_data)) / real (length lap_data) * 100))"

record lap_stats =
  max_speed :: "real option"
  avg_speed :: "real option"
  max_rpm :: "real option"
  avg_throttle :: "real option"
  avg_brake :: "real option"
  drs_usage :: "real option"

text \<open>\<^verbatim>\<open>d[k]\<close> on a dict raises \<^verbatim>\<open>KeyError\<close> for a missing key.\<close>

definition dict_getitem :: "('k \<rightharpoonup> 'v) \<Rightarrow> 'k \<Rightarrow> exn + 'v" where
  "dict_getitem d k = (case d k of None \<Rightarrow> Inl KeyError | Some v \<Rightarrow> Inr v)"

fun stats_loop ::
  "driver_data \<Rightarrow> string list \<Rightarrow> int \<Rightarrow> (string \<rightharpoonup> lap_stats) \<Rightarrow> exn + (string \<rightharpoonup> lap_stats)" where
  "stats_loop driver_data [] selected_lap stats = Inr stats"
| "stats_loop driver_data (driver # ds) selected_lap stats =
     (if driver \<notin> dom driver_data then stats_loop driver_data ds selected_lap stats
      else
        (case dict_getitem driver_data driver of
           Inl e \<Rightarrow> Inl e
         | Inr df \<Rightarrow>
             (let lap_data = filter (\<lambda>s. LapNumber s = selected_lap) df in
              if lap_data = [] then stats_loop driver_data ds selected_lap stats
              else stats_loop driver_data ds selected_lap
                     (stats(driver \<mapsto>
                        \<lparr>max_speed = series_max (map Speed lap_data),
                         avg_speed = series_mean (map Speed lap_data),
                         max_rpm = series_max (map RPM lap_data),
                         avg_throttle = series_mean (map Throttle lap_data),
                         avg_brake = series_mean (map Brake lap_data),
                         drs_usage = drs_usage_of lap_data\<rparr>)))))"

definition get_lap_summary_stats ::
  "driver_data \<Rightarrow> string list \<Rightarrow> int \<Rightarrow> exn + (string \<rightharpoonup> lap_stats)" where
  "get_lap_summary_stats driver_data selected_drivers selected_lap =
     stats_loop driver_data selected_drivers selected_lap Map.empty"

section \<open>Telemetry comparison plot\<close>

text \<open>\<^verbatim>\<open>xs[i]\<close> on a list with a non-negative index raises \<^verbatim>\<open>IndexError\<close> out of range.\<close>

definition list_getitem :: "'a list \<Rightarrow> nat \<Rightarrow> exn + 'a" where
  "list_getitem xs i = (if i < length xs then Inr (xs ! i) else Inl IndexError)"

definition telemetry_metrics :: "(string \<times> (sample \<Rightarrow> real)) list" where
  "telemetry_metrics =
     [(''Speed'', Speed), (''RPM'', RPM), (''Throttle'', Throttle), (''Brake'', Brake),
      (''DRS'', DRS), (''nGear'', nGear)]"

definition metric_titles :: "string list" where
  "metric_titles = [''Speed (km/h)'', ''RPM'', ''Throttle (%)'', ''Brake'', ''DRS'', ''Gear'']"

definition num_metrics :: nat where
  "num_metrics = length telemetry_metrics"

text \<open>
  The body of the loop over \<^verbatim>\<open>selected_drivers\<close>: one trace per metric over the lap's
  rows sorted by distance, then one reference line per subplot. pandas sorts with an
  unstable quicksort, so the order of rows at equal distance is its choice; the model
  keeps their frame order.
\<close>

definition driver_traces ::
  "(string \<rightharpoonup> string) \<Rightarrow> string \<Rightarrow> frame \<Rightarrow> scatter list" where
  "driver_traces driver_colors driver_code lap_telemetry_sorted =
     map (\<lambda>(i, metric).
            \<lparr>scatter_x = map Distance lap_telemetry_sorted,
             scatter_y = map (snd metric) lap_telemetry_sorted,
             mode = ''lines'', name = driver_code,
             line_color = (case driver_colors driver_code of None \<Rightarrow> ''white'' | Some c \<Rightarrow> c),
             hovertemplate = MetricHover driver_code (metric_titles ! i),
             showlegend = (i = 0), subplot_row = i + 1\<rparr>)
         (enumerate 0 telemetry_metrics)"

definition plot_driver ::
  "driver_data \<Rightarrow> (string \<rightharpoonup> string) \<Rightarrow> int \<Rightarrow> real \<Rightarrow> string \<Rightarrow> figure \<Rightarrow> figure" where
  "plot_driver driver_data driver_colors selected_lap selected_distance driver_code fig =
     (case driver_data driver_code of
        None \<Rightarrow> fig
      | Some df \<Rightarrow>
          if df = [] then fig
          else
            (let lap_telemetry = filter (\<lambda>s. LapNumber s = selected_lap) df in
             if lap_telemetry = [] then fig
             else
               fold (\<lambda>i. add_vline \<lparr>vline_x = selected_distance,
                                     annotation_text = selected_distance, vline_row = i + 1\<rparr>)
                    [0..<num_metrics]
                    (fold add_trace
                       (driver_traces driver_colors driver_code (sort_key Distance lap_telemetry))
                       fig)))"

text \<open>
  \<^verbatim>\<open>create_telemetry_plots\<close>. The dict display \<^verbatim>\<open>driver_colors\<close> evaluates its keys and
  values left to right: \<^verbatim>\<open>selected_drivers[0]\<close>, then \<^verbatim>\<open>selected_drivers[1]\<close>, whose value
  alone is the conditional expression; a later equal key overwrites an earlier one.
\<close>

definition create_telemetry_plots ::
  "driver_data \<Rightarrow> string list \<Rightarrow> int \<Rightarrow> real \<Rightarrow> exn + figure" where
  "create_telemetry_plots driver_data selected_drivers selected_lap selected_distance =
     (let fig = Figure in
      case list_getitem selected_drivers 0 of
        Inl e \<Rightarrow> Inl e
      | Inr k0 \<Rightarrow>
          (case list_getitem selected_drivers 1 of
             Inl e \<Rightarrow> Inl e
           | Inr k1 \<Rightarrow>
               (let driver_colors =
                      [k0 \<mapsto> ''#00D4FF'',
                       k1 \<mapsto> (if length selected_drivers > 1 then ''#FF6B35'' else ''#F7931E'')];
                    fig' = fold (plot_driver driver_data driver_colors selected_lap
                                   selected_distance) selected_drivers fig
                in Inr (fig'\<lparr>layout_title := TelemetryTitle selected_lap,
                              layout_height := Some (150 * num_metrics)\<rparr>))))"

section \<open>What the aligner's loops compute\<close>



text \<open>
  The statistics of one lap as the spec words them: maximum and mean speed, maximum RPM,
  mean throttle, mean brake and the percentage of samples with DRS active; and the entry
  of one driver, absent when the driver is not in the mapping or has no sample at the lap.
\<close>

definition lap_summary :: "frame \<Rightarrow> lap_stats" where
  "lap_summary lap_data =
     \<lparr>max_speed = Some (Max (Speed ` set lap_data)),
      avg_speed = Some (sum_list (map Speed lap_data) / real (length lap_data)),
      max_rpm = Some (Max (RPM ` set lap_data)),
      avg_throttle = Some (sum_list (map Throttle lap_data) / real (length lap_data)),
      avg_brake = Some (sum_list (map Brake lap_data) / real (length lap_data)),
      drs_usage = Some (real (length (filter (\<lambda>s. DRS s > 0) lap_data)) /
                        real (length lap_data) * 100)\<rparr>"

definition summary_of :: "driver_data \<Rightarrow> int \<Rightarrow> string \<Rightarrow> lap_stats option" where
  "summary_of driver_data selected_lap driver =
     (case driver_data driver of
        None \<Rightarrow> None
      | Some df \<Rightarrow>
          (let lap_data = filter (\<lambda>s. LapNumber s = selected_lap) df
           in if lap_data = [] then None else Some (lap_summary lap_data)))"

section \<open>Files, processes and text\<close>

text \<open>
  The part of the world that \<^verbatim>\<open>pdf_utils.py\<close> touches: the files (full path to bytes, a
  \<open>char\<close> being one byte), the working directory, the platform's line separator and the
  messages shown with \<^verbatim>\<open>st.error\<close>. A relative path is resolved against the working
  directory.
\<close>

type_synonym path = string
type_synonym fs = "path \<rightharpoonup> string"

record world =
  files :: fs
  cwd :: path
  linesep :: "nat list"
  st_errors :: "string list"

definition resolve :: "world \<Rightarrow> path \<Rightarrow> path" where
  "resolve w p = (if p \<noteq> [] \<and> hd p = CHR ''/'' then p else cwd w @ ''/'' @ p)"

text \<open>
  \<^verbatim>\<open>subprocess.run([...], capture_output=True, text=True)\<close>: the external program runs
  in a working directory on the files; the call raises (the program is not installed) or
  returns the exit code and the captured error output, and the files are as the program
  left them.
\<close>

record completed =
  returncode :: int
  stderr :: string

type_synonym process = "path \<Rightarrow> fs \<Rightarrow> (exn + completed) \<times> fs"

text \<open>\<^verbatim>\<open>aux_file.unlink()\<close> behind its \<^verbatim>\<open>exists()\<close> test, for one extension.\<close>

definition unlink_aux :: "path \<Rightarrow> string \<Rightarrow> fs \<Rightarrow> fs" where
  "unlink_aux latex_dir ext fs =
     (if fs (latex_dir @ ''/resume'' @ ext) \<noteq> None then fs(latex_dir @ ''/resume'' @ ext := None)
      else fs)"

definition aux_extensions :: "string list" where
  "aux_extensions = [''.aux'', ''.log'', ''.out'', ''.fls'', ''.fdb_latexmk'']"

text \<open>
  \<^verbatim>\<open>compile_latex_resume\<close>. \<open>base\<close> is \<^verbatim>\<open>get_base_path()\<close>. The handler of
  \<^verbatim>\<open>except Exception\<close> restores the working directory, shows the error and returns
  \<^verbatim>\<open>False\<close>; \<^verbatim>\<open>CalledProcessError\<close> cannot occur, since \<^verbatim>\<open>run\<close> is called without
  \<^verbatim>\<open>check\<close>. The result of the second run is bound to \<^verbatim>\<open>result2\<close> and not read.
\<close>

definition compile_failed :: "path \<Rightarrow> exn \<Rightarrow> world \<Rightarrow> bool \<times> world" where
  "compile_failed original_dir e w =
     (False, w\<lparr>cwd := original_dir,
               st_errors := st_errors w @ [''Error during compilation: '' @ exn_message e]\<rparr>)"

definition compile_latex_resume :: "process \<Rightarrow> path \<Rightarrow> world \<Rightarrow> bool \<times> world" where
  "compile_latex_resume pdflatex base w =
     (let latex_dir = base @ ''/assets/resume_latex'';
          latex_file = ''resume.tex''
      in
      if files w (latex_dir @ ''/'' @ latex_file) = None
      then (False, w\<lparr>st_errors := st_errors w @ [''LaTeX resume template not found'']\<rparr>)
      else
        (let original_dir = cwd w;
             w0 = w\<lparr>cwd := latex_dir\<rparr>
         in
         case pdflatex (cwd w0) (files w0) of
           (Inl e, fs1) \<Rightarrow> compile_failed original_dir e (w0\<lparr>files := fs1\<rparr>)
         | (Inr result1, fs1) \<Rightarrow>
             (let w1 = w0\<lparr>files := fs1\<rparr> in
              if returncode result1 \<noteq> 0
              then (False, w1\<lparr>cwd := original_dir,
                              st_errors := st_errors w1 @
                                [''LaTeX compilation failed: '' @ stderr result1]\<rparr>)
              else
                (case pdflatex (cwd w1) (files w1) of
                   (Inl e, fs2) \<Rightarrow> compile_failed original_dir e (w1\<lparr>files := fs2\<rparr>)
                 | (Inr result2, fs2) \<Rightarrow>
                     (let pdf_source = latex_dir @ ''/resume.pdf'';
                          pdf_target = base @ ''/assets/resume.pdf'';
                          fs3 = (case fs2 pdf_source of
                                   None \<Rightarrow> fs2
                                 | Some pdf \<Rightarrow> fs2(pdf_target \<mapsto> pdf));
                          fs4 = fold (unlink_aux latex_dir) aux_extensions fs3
                      in (True, w1\<lparr>files := fs4, cwd := original_dir\<rparr>))))))"

text \<open>
  Python text files. A \<^verbatim>\<open>str\<close> is a list of code points. Writing in text mode with the
  default \<^verbatim>\<open>newline=None\<close> replaces every \<^verbatim>\<open>'\n'\<close> by the platform's line separator and
  encodes; reading with the default decodes and applies universal newlines: \<^verbatim>\<open>'\r\n'\<close>
  and a lone \<^verbatim>\<open>'\r'\<close> both become \<^verbatim>\<open>'\n'\<close>.
\<close>

definition utf8_encode_char :: "nat \<Rightarrow> exn + string" where
  "utf8_encode_char c =
     (if c < 0x80 then Inr [char_of c]
      else if c < 0x800 then Inr [char_of (0xC0 + c div 64), char_of (0x80 + c mod 64)]
      else if c < 0x10000 then
        (if 0xD800 \<le> c \<and> c \<le> 0xDFFF then Inl UnicodeEncodeError
         else Inr [char_of (0xE0 + c div 4096), char_of (0x80 + (c div 64) mod 64),
                   char_of (0x80 + c mod 64)])
      else if c < 0x110000 then
        Inr [char_of (0xF0 + c div 262144), char_of (0x80 + (c div 4096) mod 64),
             char_of (0x80 + (c div 64) mod 64), char_of (0x80 + c mod 64)]
      else Inl UnicodeEncodeError)"

fun utf8_encode :: "nat list \<Rightarrow> exn + string" where
  "utf8_encode [] = Inr []"
| "utf8_encode (c # cs) =
     (case utf8_encode_char c of
        Inl e \<Rightarrow> Inl e
      | Inr bs \<Rightarrow> (case utf8_encode cs of Inl e \<Rightarrow> Inl e | Inr rest \<Rightarrow> Inr (bs @ rest)))"

definition continuation :: "char \<Rightarrow> bool" where
  "continuation b = (0x80 \<le> (of_char b :: nat) \<and> (of_char b :: nat) < 0xC0)"

definition payload :: "char \<Rightarrow> nat" where
  "payload b = of_char b - 0x80"

fun utf8_decode :: "string \<Rightarrow> exn + nat list" where
  "utf8_decode [] = Inr []"
| "utf8_decode (b0 # bs) =
     (let n0 = (of_char b0 :: nat) in
      if n0 < 0x80 then
        (case utf8_decode bs of Inl e \<Rightarrow> Inl e | Inr cs \<Rightarrow> Inr (n0 # cs))
      else if 0xC2 \<le> n0 \<and> n0 < 0xE0 then
        (case bs of
           b1 # rest \<Rightarrow>
             if continuation b1
             then (case utf8_decode rest of
                     Inl e \<Rightarrow> Inl e
                   | Inr cs \<Rightarrow> Inr (((n0 - 0xC0) * 64 + payload b1) # cs))
             else Inl UnicodeDecodeError
         | _ \<Rightarrow> Inl UnicodeDecodeError)
      else if 0xE0 \<le> n0 \<and> n0 < 0xF0 then
        (case bs of
           b1 # b2 # rest \<Rightarrow>
             (let c = (n0 - 0xE0) * 4096 + payload b1 * 64 + payload b2 in
              if continuation b1 \<and> continuation b2 \<and> 0x800 \<le> c \<and>
                 \<not> (0xD800 \<le> c \<and> c \<le> 0xDFFF)
              then (case utf8_decode rest of Inl e \<Rightarrow> Inl e | Inr cs \<Rightarrow> Inr (c # cs))
              else Inl UnicodeDecodeError)
         | _ \<Rightarrow> Inl UnicodeDecodeError)
      else if 0xF0 \<le> n0 \<and> n0 < 0xF5 then
        (case bs of
           b1 # b2 # b3 # rest \<Rightarrow>
             (let c = (n0 - 0xF0) * 262144 + payload b1 * 4096 + payload b2 * 64 + payload b3 in
              if continuation b1 \<and> continuation b2 \<and> continuation b3 \<and> 0x10000 \<le> c \<and>
                 c < 0x110000
              then (case utf8_decode rest of Inl e \<Rightarrow> Inl e | Inr cs \<Rightarrow> Inr (c # cs))
              else Inl UnicodeDecodeError)
         | _ \<Rightarrow> Inl UnicodeDecodeError)
      else Inl UnicodeDecodeError)"

definition translate_newlines_out :: "nat list \<Rightarrow> nat list \<Rightarrow> nat list" where
  "translate_newlines_out sep s = concat (map (\<lambda>c. if c = 10 then sep else [c]) s)"

fun universal_newlines :: "nat list \<Rightarrow> nat list" where
  "universal_newlines [] = []"
| "universal_newlines [c] = [if c = 13 then 10 else c]"
| "universal_newlines (c # d # cs) =
     (if c = 13 \<and> d = 10 then 10 # universal_newlines cs
      else if c = 13 then 10 # universal_newlines (d # cs)
      else c # universal_newlines (d # cs))"

text \<open>
  \<^verbatim>\<open>with open(p, 'w', encoding='utf-8') as f: f.write(content)\<close>: opening truncates or
  creates the file; an encoding error leaves it empty and propagates. Creating the
  directory and opening the file are taken to succeed.
  \<^verbatim>\<open>with open(p, 'r', encoding='utf-8') as f: f.read()\<close> is \<open>read_text\<close>.
\<close>

definition write_text :: "path \<Rightarrow> nat list \<Rightarrow> world \<Rightarrow> exn option \<times> world" where
  "write_text p content w =
     (case utf8_encode (translate_newlines_out (linesep w) content) of
        Inl e \<Rightarrow> (Some e, w\<lparr>files := (files w)(resolve w p \<mapsto> [])\<rparr>)
      | Inr bs \<Rightarrow> (None, w\<lparr>files := (files w)(resolve w p \<mapsto> bs)\<rparr>))"

definition read_text :: "path \<Rightarrow> world \<Rightarrow> exn + nat list" where
  "read_text p w =
     (case files w (resolve w p) of
        None \<Rightarrow> Inl FileNotFoundError
      | Some bs \<Rightarrow>
          (case utf8_decode bs of Inl e \<Rightarrow> Inl e | Inr s \<Rightarrow> Inr (universal_newlines s)))"

text \<open>
  \<^verbatim>\<open>save_latex_template\<close>. \<open>template\<close> stands for the literal that
  \<^verbatim>\<open>get_latex_template()\<close> returns, used when no content is given. Every exception is
  caught: the error is shown and the result is \<^verbatim>\<open>False\<close>.
\<close>

definition save_latex_template ::
  "nat list \<Rightarrow> path \<Rightarrow> nat list option \<Rightarrow> world \<Rightarrow> bool \<times> world" where
  "save_latex_template template base content w =
     (let latex_dir = base @ ''/assets/resume_latex'';
          latex_file = latex_dir @ ''/resume.tex'';
          content' = (case content of None \<Rightarrow> template | Some c \<Rightarrow> c)
      in case write_text latex_file content' w of
           (Some e, w') \<Rightarrow>
             (False, w'\<lparr>st_errors := st_errors w' @
                          [''Error saving LaTeX template: '' @ exn_message e]\<rparr>)
         | (None, w') \<Rightarrow> (True, w'))"

text \<open>The read of \<^verbatim>\<open>display_latex_source\<close>, through the relative path.\<close>

definition load_latex_source :: "world \<Rightarrow> exn + nat list" where
  "load_latex_source w = read_text ''assets/resume_latex/resume.tex'' w"

text \<open>The code points that UTF-8 can encode: up to U+10FFFF, surrogates excluded.\<close>

definition scalar_value :: "nat \<Rightarrow> bool" where
  "scalar_value c = (c < 0x110000 \<and> \<not> (0xD800 \<le> c \<and> c \<le> 0xDFFF))"

section \<open>Example data\<close>

text \<open>
  The scenario of the spec: driver VER with two laps sampled at distances 0, 50 and 100 with
  speeds 200, 250 and 300; then a session in which VER has eight laps (four of them valid,
  one of these with a failing fetch and one with an empty trace), HAM has no valid lap and
  the lap lookup for BOT raises.
\<close>

definition point :: "string \<Rightarrow> int \<Rightarrow> real \<Rightarrow> real \<Rightarrow> real \<Rightarrow> real \<Rightarrow> sample" where
  "point drv n d sp px py =
     \<lparr>Speed = sp, RPM = 11000, Throttle = 100, Brake = 0, DRS = 0, nGear = 7,
      X = px, Y = py, Distance = d, LapNumber = n, Driver = drv, LapTime = Some 90\<rparr>"

definition ver_frame :: frame where
  "ver_frame =
     [point ''VER'' 1 0 200 10 20, point ''VER'' 1 50 250 30 40, point ''VER'' 1 100 300 50 60,
      point ''VER'' 2 0 200 11 21, point ''VER'' 2 50 250 31 41, point ''VER'' 2 100 300 51 61]"

definition ver_data :: driver_data where
  "ver_data = [''VER'' \<mapsto> ver_frame]"

definition row :: "real \<Rightarrow> real \<Rightarrow> real \<Rightarrow> car_row" where
  "row sp px py =
     \<lparr>Speed = sp, RPM = 11000, Throttle = 100, Brake = 0, DRS = 0, nGear = 7, X = px, Y = py\<rparr>"

definition mk_lap ::
  "int \<Rightarrow> bool \<Rightarrow> real option \<Rightarrow> real option \<Rightarrow> real option \<Rightarrow> exn + car_row list \<Rightarrow> lap" where
  "mk_lap n acc t pout pin tel =
     \<lparr>lap.LapNumber = n, IsAccurate = acc, lap.LapTime = t, PitOutTime = pout, PitInTime = pin,
      get_telemetry = tel\<rparr>"

definition ver_laps :: "lap list" where
  "ver_laps =
     [mk_lap 1 True (Some 90) (Some 5) None (Inr [row 100 0 0, row 120 1 1]),
      mk_lap 2 True (Some 88) None None (Inr [row 200 0 0, row 250 3 4, row 300 6 8]),
      mk_lap 3 True (Some 87) None None (Inl (External ''no data'')),
      mk_lap 4 False (Some 95) None None (Inr [row 150 0 0, row 160 2 2]),
      mk_lap 5 True (Some 86) None None (Inr []),
      mk_lap 6 True (Some 85) None None (Inr [row 210 0 0, row 260 0 5]),
      mk_lap 7 True None None None (Inr [row 100 0 0]),
      mk_lap 8 True (Some 99) None (Some 700) (Inr [row 100 0 0])]"

definition ham_laps :: "lap list" where
  "ham_laps =
     [mk_lap 1 True (Some 91) (Some 5) None (Inr [row 100 0 0]),
      mk_lap 2 False (Some 89) None None (Inr [row 100 0 0])]"

definition example_session :: session where
  "example_session =
     \<lparr>pick_drivers = (\<lambda>d. if d = ''VER'' then Inr ver_laps
                            else if d = ''HAM'' then Inr ham_laps
                            else if d = ''BOT'' then Inl (External ''session not loaded'')
                            else Inr [])\<rparr>"



text \<open>
  A \<^verbatim>\<open>pdflatex\<close> whose first run succeeds and writes the PDF and the \<^verbatim>\<open>.aux\<close> file,
  and whose next run, reading that \<^verbatim>\<open>.aux\<close> file, stops with exit code 1 and leaves a
  damaged PDF behind. The world before the call holds the template and an earlier PDF.
\<close>

definition second_run_fails :: process where
  "second_run_fails dir fs =
     (if fs (dir @ ''/resume.aux'') = None
      then (Inr \<lparr>returncode = 0, stderr = []\<rparr>,
            fs(dir @ ''/resume.pdf'' \<mapsto> ''%PDF first run'', dir @ ''/resume.aux'' \<mapsto> ''aux''))
      else (Inr \<lparr>returncode = 1, stderr = ''! Emergency stop.''\<rparr>,
            fs(dir @ ''/resume.pdf'' \<mapsto> ''%PDF damaged'')))"

definition resume_world :: world where
  "resume_world =
     \<lparr>files = [''/app/assets/resume_latex/resume.tex'' \<mapsto> ''tex'',
               ''/app/assets/resume.pdf'' \<mapsto> ''%PDF earlier''],
      cwd = ''/app'', linesep = [10], st_errors = []\<rparr>"

section \<open>Properties of the nearest-position locator\<close>




lemma series_min_Min:
  assumes "ns \<noteq> []"
  shows "series_min ns = Some (Min (set ns))"
proof (cases ns)
  case Nil
  with assms show ?thesis by simp
next
  case (Cons n ns')
  have "fold min ns' n = Min (set (n # ns'))" by (simp only: Min.set_eq_fold)
  with Cons show ?thesis by (simp add: series_min_def)
qed

lemma track_data_min_lap:
  "df \<noteq> [] \<Longrightarrow> track_data df = filter (\<lambda>s. LapNumber s = Min (LapNumber ` set df)) df"
  by (simp add: track_data_def lap_rows_def series_min_Min)

lemma track_data_empty_iff: "track_data df = [] \<longleftrightarrow> df = []"
proof
  assume e: "track_data df = []"
  show "df = []"
  proof (rule ccontr)
    assume ne: "df \<noteq> []"
    then have "Min (LapNumber ` set df) \<in> LapNumber ` set df"
      by (intro Min_in) auto
    then obtain s where "s \<in> set df" "LapNumber s = Min (LapNumber ` set df)" by auto
    then have "s \<in> set (track_data df)" using ne by (simp add: track_data_min_lap)
    with e show False by simp
  qed
next
  assume "df = []"
  then show "track_data df = []" by (simp add: track_data_def lap_rows_def series_min_def)
qed


text \<open>The figure that \<^verbatim>\<open>create_track_plot\<close> builds from a non-empty reference trace has
  exactly two traces, the outline and the marker.\<close>

lemma create_track_plot_has_marker:
  assumes "selected_drivers = first_driver # others"
    and "driver_data first_driver = Some df"
    and "track_data df \<noteq> []"
  shows "length (data (create_track_plot driver_data selected_drivers h)) = 2"
  using assms
  by (cases "track_data df") (simp_all add: create_track_plot_def add_trace_def Figure_def)




text \<open>
  C9. With no selected driver, with a first selected driver that is not a key of the
  telemetry mapping, or with an empty reference trace, \<^verbatim>\<open>update_track_marker\<close> returns
  normally and leaves the whole figure, marker trace included, as it was.
\<close>

theorem update_track_marker_no_update:
  assumes "selected_drivers = [] \<or>
           (\<exists>first_driver others. selected_drivers = first_driver # others \<and>
              (driver_data first_driver = None \<or>
               (\<exists>df. driver_data first_driver = Some df \<and> track_data df = [])))"
  shows "update_track_marker fig driver_data selected_drivers d = Inr fig"
  using assms by (auto simp: update_track_marker_def)

theorem update_track_marker_no_update_witness:
  "update_track_marker (create_track_plot ver_data [''VER'', ''HAM''] 600) ver_data [] 60
     = Inr (create_track_plot ver_data [''VER'', ''HAM''] 600) \<and>
   ver_data ''HAM'' = None \<and>
   update_track_marker (create_track_plot ver_data [''VER'', ''HAM''] 600) ver_data
       [''HAM'', ''VER''] 60
     = Inr (create_track_plot ver_data [''VER'', ''HAM''] 600) \<and>
   track_data [] = [] \<and>
   update_track_marker (create_track_plot ver_data [''VER'', ''HAM''] 600) [''VER'' \<mapsto> []]
       [''VER'', ''HAM''] 60
     = Inr (create_track_plot ver_data [''VER'', ''HAM''] 600)"
proof -
  let ?fig = "create_track_plot ver_data [''VER'', ''HAM''] 600"
  have a: "update_track_marker ?fig ver_data [] 60 = Inr ?fig"
    by (rule update_track_marker_no_update) simp
  have h: "ver_data ''HAM'' = None" by (simp add: ver_data_def)
  have b: "update_track_marker ?fig ver_data [''HAM'', ''VER''] 60 = Inr ?fig"
    by (rule update_track_marker_no_update) (simp add: h)
  have t: "track_data [] = []" by (simp add: track_data_empty_iff)
  have c: "update_track_marker ?fig [''VER'' \<mapsto> []] [''VER'', ''HAM''] 60 = Inr ?fig"
    by (rule update_track_marker_no_update) (simp add: t)
  from a h b t c show ?thesis by blast
qed

section \<open>Properties of the lap filter\<close>

lemma series_and_map: "series_and (map P xs) (map Q xs) = map (\<lambda>x. P x \<and> Q x) xs"
  by (induction xs) (simp_all add: series_and_def)

lemma loc_mask_map: "loc_mask xs (map P xs) = filter P xs"
  by (induction xs) (simp_all add: loc_mask_def)

lemma valid_laps_filter:
  "valid_laps driver_laps =
     filter (\<lambda>l. IsAccurate l \<and> lap.LapTime l \<noteq> None \<and> PitOutTime l = None \<and> PitInTime l = None)
       driver_laps"
  by (simp add: valid_laps_def series_and_map loc_mask_map)

text \<open>
  C2. The lap filter of \<^verbatim>\<open>process_driver_data\<close> returns exactly the laps that are
  accurate, have a lap time and have neither a pit-in nor a pit-out time; the result is a
  subsequence of the input (its laps keep their relative order, so lap numbers that came
  sorted stay sorted); and when no lap qualifies the body of the driver's \<^verbatim>\<open>try\<close> ends
  without an exception and without touching the state.
\<close>

theorem lap_filter_subsequence:
  "valid_laps driver_laps =
     filter (\<lambda>l. IsAccurate l = True \<and> lap.LapTime l \<noteq> None \<and> PitInTime l = None \<and>
                 PitOutTime l = None) driver_laps \<and>
   subseq (valid_laps driver_laps) driver_laps \<and>
   (sorted (map lap.LapNumber driver_laps) \<longrightarrow>
      sorted (map lap.LapNumber (valid_laps driver_laps))) \<and>
   (pick_drivers s driver_code = Inr driver_laps \<longrightarrow> valid_laps driver_laps = [] \<longrightarrow>
      driver_body s driver_code st = (None, st))"
proof (intro conjI impI)
  show "valid_laps driver_laps =
     filter (\<lambda>l. IsAccurate l = True \<and> lap.LapTime l \<noteq> None \<and> PitInTime l = None \<and>
                 PitOutTime l = None) driver_laps"
    by (simp add: valid_laps_filter conj_commute)
  show "subseq (valid_laps driver_laps) driver_laps"
    by (simp add: valid_laps_filter)
  show "sorted (map lap.LapNumber (valid_laps driver_laps))"
    if "sorted (map lap.LapNumber driver_laps)"
    using that by (simp add: valid_laps_filter sorted_wrt_map sorted_wrt_filter)
  show "driver_body s driver_code st = (None, st)"
    if "pick_drivers s driver_code = Inr driver_laps" "valid_laps driver_laps = []"
    using that by (simp add: driver_body_def)
qed


lemma ver_valid: "valid_laps ver_laps =
     [mk_lap 2 True (Some 88) None None (Inr [row 200 0 0, row 250 3 4, row 300 6 8]),
      mk_lap 3 True (Some 87) None None (Inl (External ''no data'')),
      mk_lap 5 True (Some 86) None None (Inr []),
      mk_lap 6 True (Some 85) None None (Inr [row 210 0 0, row 260 0 5])]"
  by (simp add: valid_laps_filter ver_laps_def mk_lap_def)

lemma ham_valid: "valid_laps ham_laps = []"
  by (simp add: valid_laps_filter ham_laps_def mk_lap_def)

text \<open>
  On the example session: VER's eight laps come sorted, laps 2, 3, 5 and 6 survive the
  filter in that order; none of HAM's laps does, and processing HAM changes nothing.
\<close>

theorem lap_filter_subsequence_witness:
  "sorted (map lap.LapNumber ver_laps) \<and>
   map lap.LapNumber (valid_laps ver_laps) = [2, 3, 5, 6] \<and>
   sorted (map lap.LapNumber (valid_laps ver_laps)) \<and>
   pick_drivers example_session ''HAM'' = Inr ham_laps \<and> valid_laps ham_laps = [] \<and>
   driver_body example_session ''HAM'' pd_init = (None, pd_init)"
proof -
  have a: "sorted (map lap.LapNumber ver_laps)" by (simp add: ver_laps_def mk_lap_def)
  have b: "pick_drivers example_session ''HAM'' = Inr ham_laps"
    by (simp add: example_session_def)
  from lap_filter_subsequence [of ver_laps example_session "''VER''" pd_init] a
  have c: "sorted (map lap.LapNumber (valid_laps ver_laps))" by blast
  from lap_filter_subsequence [of ham_laps example_session "''HAM''" pd_init] b ham_valid
  have d: "driver_body example_session ''HAM'' pd_init = (None, pd_init)" by blast
  from a b c d ham_valid show ?thesis by (simp add: ver_valid mk_lap_def)
qed

section \<open>Properties of the telemetry aligner\<close>

lemma set_unique [simp]: "set (unique xs) = set xs"
  by (simp add: unique_def)

lemma distinct_unique [simp]: "distinct (unique xs)"
  by (simp add: unique_def)

lemma unique_Nil [simp]: "unique [] = []"
  by (simp add: unique_def)

lemma valid_laps_Nil [simp]: "valid_laps [] = []"
  by (simp add: valid_laps_filter)





lemma length_cumulative_distance [simp]:
  "length (cumulative_distance acc prev rs) = length rs"
  by (induction rs arbitrary: acc prev) (simp_all add: Let_def)





















section \<open>Properties of the lap summary statistics\<close>

lemma series_max_Max:
  assumes "vs \<noteq> []"
  shows "series_max vs = Some (Max (set vs))"
proof (cases vs)
  case Nil
  with assms show ?thesis by simp
next
  case (Cons v ws)
  have "fold max ws v = Max (set (v # ws))" by (simp only: Max.set_eq_fold)
  with Cons show ?thesis by (simp add: series_max_def)
qed

lemma lap_stats_summary:
  assumes "lap_data \<noteq> []"
  shows "\<lparr>max_speed = series_max (map Speed lap_data),
          avg_speed = series_mean (map Speed lap_data),
          max_rpm = series_max (map RPM lap_data),
          avg_throttle = series_mean (map Throttle lap_data),
          avg_brake = series_mean (map Brake lap_data),
          drs_usage = drs_usage_of lap_data\<rparr> = lap_summary lap_data"
  using assms
  by (simp add: lap_summary_def series_max_Max series_mean_def drs_usage_of_def)

lemma stats_loop_summary:
  "stats_loop driver_data ds selected_lap stats =
     Inr (\<lambda>d. if d \<in> set ds \<and> summary_of driver_data selected_lap d \<noteq> None
               then summary_of driver_data selected_lap d else stats d)"
proof (induction ds arbitrary: stats)
  case Nil
  show ?case by simp
next
  case (Cons driver ds)
  show ?case
  proof (cases "driver_data driver")
    case None
    then have "summary_of driver_data selected_lap driver = None"
      by (simp add: summary_of_def)
    with None show ?thesis
      by (auto simp: Cons.IH dom_def fun_eq_iff)
  next
    case (Some df)
    show ?thesis
    proof (cases "filter (\<lambda>s. LapNumber s = selected_lap) df = []")
      case True
      with Some have "summary_of driver_data selected_lap driver = None"
        by (simp add: summary_of_def)
      with Some True show ?thesis
        by (auto simp: Cons.IH dom_def dict_getitem_def fun_eq_iff)
    next
      case False
      with Some have "summary_of driver_data selected_lap driver =
          Some (lap_summary (filter (\<lambda>s. LapNumber s = selected_lap) df))"
        by (simp add: summary_of_def)
      with Some False show ?thesis
        by (auto simp: Cons.IH dom_def dict_getitem_def fun_eq_iff lap_stats_summary Let_def)
    qed
  qed
qed

text \<open>
  C5. \<^verbatim>\<open>get_lap_summary_stats\<close> always returns a mapping, never an exception. A
  selected driver who is a key of the telemetry mapping and has at least one sample at the
  target lap is mapped to exactly the six statistics of those samples: maximum speed, mean
  speed, maximum RPM, mean throttle, mean brake and the percentage of samples with DRS
  above zero. Every other driver has no entry.
\<close>

theorem get_lap_summary_stats_per_driver:
  "\<exists>stats. get_lap_summary_stats driver_data selected_drivers selected_lap = Inr stats \<and>
     (\<forall>d. stats d =
        (if d \<in> set selected_drivers
         then (case driver_data d of
                 None \<Rightarrow> None
               | Some df \<Rightarrow>
                   (let lap_data = filter (\<lambda>s. LapNumber s = selected_lap) df
                    in if lap_data = [] then None
                       else Some \<lparr>max_speed = Some (Max (Speed ` set lap_data)),
                                  avg_speed = Some (sum_list (map Speed lap_data) / real (length lap_data)),
                                  max_rpm = Some (Max (RPM ` set lap_data)),
                                  avg_throttle = Some (sum_list (map Throttle lap_data) / real (length lap_data)),
                                  avg_brake = Some (sum_list (map Brake lap_data) / real (length lap_data)),
                                  drs_usage = Some (real (length (filter (\<lambda>s. DRS s > 0) lap_data)) /
                                                    real (length lap_data) * 100)\<rparr>))
         else None))"
  by (auto simp: get_lap_summary_stats_def stats_loop_summary summary_of_def lap_summary_def
        Let_def split: option.splits)


text \<open>
  On VER's example frame at lap 1 (speeds 200, 250, 300): maximum 300, mean 250; HAM is
  not in the mapping and is omitted; at lap 3, which VER did not drive, VER is omitted.
\<close>

theorem get_lap_summary_stats_per_driver_witness:
  "\<exists>stats. get_lap_summary_stats ver_data [''VER'', ''HAM''] 1 = Inr stats \<and>
     stats ''HAM'' = None \<and>
     stats ''VER'' = Some \<lparr>max_speed = Some 300, avg_speed = Some 250, max_rpm = Some 11000,
                            avg_throttle = Some 100, avg_brake = Some 0, drs_usage = Some 0\<rparr> \<and>
     (\<exists>stats3. get_lap_summary_stats ver_data [''VER'', ''HAM''] 3 = Inr stats3 \<and>
        stats3 ''VER'' = None)"
proof -
  from get_lap_summary_stats_per_driver [of ver_data "[''VER'', ''HAM'']" 1]
  obtain stats where run: "get_lap_summary_stats ver_data [''VER'', ''HAM''] 1 = Inr stats"
    and st: "\<And>d. stats d =
        (if d \<in> set [''VER'', ''HAM'']
         then (case ver_data d of
                 None \<Rightarrow> None
               | Some df \<Rightarrow>
                   (let lap_data = filter (\<lambda>s. LapNumber s = 1) df
                    in if lap_data = [] then None
                       else Some \<lparr>max_speed = Some (Max (Speed ` set lap_data)),
                                  avg_speed = Some (sum_list (map Speed lap_data) / real (length lap_data)),
                                  max_rpm = Some (Max (RPM ` set lap_data)),
                                  avg_throttle = Some (sum_list (map Throttle lap_data) / real (length lap_data)),
                                  avg_brake = Some (sum_list (map Brake lap_data) / real (length lap_data)),
                                  drs_usage = Some (real (length (filter (\<lambda>s. DRS s > 0) lap_data)) /
                                                    real (length lap_data) * 100)\<rparr>))
         else None)"
    by blast
  from get_lap_summary_stats_per_driver [of ver_data "[''VER'', ''HAM'']" 3]
  obtain stats3 where run3: "get_lap_summary_stats ver_data [''VER'', ''HAM''] 3 = Inr stats3"
    and st3: "\<And>d. stats3 d =
        (if d \<in> set [''VER'', ''HAM'']
         then (case ver_data d of
                 None \<Rightarrow> None
               | Some df \<Rightarrow>
                   (let lap_data = filter (\<lambda>s. LapNumber s = 3) df
                    in if lap_data = [] then None
                       else Some \<lparr>max_speed = Some (Max (Speed ` set lap_data)),
                                  avg_speed = Some (sum_list (map Speed lap_data) / real (length lap_data)),
                                  max_rpm = Some (Max (RPM ` set lap_data)),
                                  avg_throttle = Some (sum_list (map Throttle lap_data) / real (length lap_data)),
                                  avg_brake = Some (sum_list (map Brake lap_data) / real (length lap_data)),
                                  drs_usage = Some (real (length (filter (\<lambda>s. DRS s > 0) lap_data)) /
                                                    real (length lap_data) * 100)\<rparr>))
         else None)"
    by blast
  have h: "stats ''HAM'' = None" by (simp add: st ver_data_def)
  have v: "stats ''VER'' = Some \<lparr>max_speed = Some 300, avg_speed = Some 250, max_rpm = Some 11000,
                            avg_throttle = Some 100, avg_brake = Some 0, drs_usage = Some 0\<rparr>"
    by (simp add: st ver_data_def ver_frame_def point_def)
  have v3: "stats3 ''VER'' = None"
    by (simp add: st3 ver_data_def ver_frame_def point_def)
  from run3 v3 have "\<exists>stats3. get_lap_summary_stats ver_data [''VER'', ''HAM''] 3 = Inr stats3 \<and>
        stats3 ''VER'' = None" by simp
  with run h v show ?thesis by simp
qed

section \<open>Properties of the event schedule\<close>






section \<open>Properties of the telemetry comparison plot\<close>

text \<open>
  C10. \<^verbatim>\<open>create_telemetry_plots\<close> evaluates \<^verbatim>\<open>selected_drivers[1]\<close> as a key of its
  colour dict whatever the length of the list: with fewer than two selected drivers the call
  ends in \<^verbatim>\<open>IndexError\<close>; whenever it returns a figure at least two drivers were
  selected, and with two or more it does return one.
\<close>

theorem create_telemetry_plots_needs_two_drivers:
  "(length selected_drivers < 2 \<longrightarrow>
      create_telemetry_plots driver_data selected_drivers selected_lap selected_distance
        = Inl IndexError) \<and>
   (\<forall>fig. create_telemetry_plots driver_data selected_drivers selected_lap selected_distance
             = Inr fig \<longrightarrow> 2 \<le> length selected_drivers) \<and>
   (2 \<le> length selected_drivers \<longrightarrow>
      (\<exists>fig. create_telemetry_plots driver_data selected_drivers selected_lap selected_distance
               = Inr fig))"
  by (auto simp: create_telemetry_plots_def list_getitem_def Let_def split: sum.splits if_splits)


text \<open>
  On VER's example data: one selected driver and no selected driver both end in
  \<^verbatim>\<open>IndexError\<close>, two selected drivers give a figure.
\<close>

theorem create_telemetry_plots_needs_two_drivers_witness:
  "length [''VER''] < 2 \<and>
   create_telemetry_plots ver_data [''VER''] 1 60 = Inl IndexError \<and>
   create_telemetry_plots ver_data [] 1 60 = Inl IndexError \<and>
   2 \<le> length [''VER'', ''HAM''] \<and>
   (\<exists>fig. create_telemetry_plots ver_data [''VER'', ''HAM''] 1 60 = Inr fig)"
proof -
  have one: "length [''VER''] < 2" and none: "length ([] :: string list) < 2"
    and two: "2 \<le> length [''VER'', ''HAM'']" by simp_all
  from create_telemetry_plots_needs_two_drivers [of "[''VER'']" ver_data 1 60] one
  have a: "create_telemetry_plots ver_data [''VER''] 1 60 = Inl IndexError" by blast
  from create_telemetry_plots_needs_two_drivers [of "[]" ver_data 1 60] none
  have b: "create_telemetry_plots ver_data [] 1 60 = Inl IndexError" by blast
  from create_telemetry_plots_needs_two_drivers [of "[''VER'', ''HAM'']" ver_data 1 60] two
  have c: "\<exists>fig. create_telemetry_plots ver_data [''VER'', ''HAM''] 1 60 = Inr fig" by blast
  from one two a b c show ?thesis by (intro conjI)
qed

section \<open>Properties of the resume compiler\<close>

text \<open>
  What the function does get right: a failing first run, or a run that raises, gives
  \<^verbatim>\<open>False\<close> with an error shown, the working directory restored and no file touched
  beyond what the compiler itself wrote.
\<close>

lemma compile_latex_resume_first_run_fails:
  assumes "files w (base @ ''/assets/resume_latex/resume.tex'') = Some tex"
    and "pdflatex (base @ ''/assets/resume_latex'') (files w) = (Inr result1, fs1)"
    and "returncode result1 \<noteq> 0"
  shows "compile_latex_resume pdflatex base w =
           (False, w\<lparr>files := fs1,
                     st_errors := st_errors w @
                       [''LaTeX compilation failed: '' @ stderr result1]\<rparr>)"
  using assms by (simp add: compile_latex_resume_def Let_def)

lemma compile_latex_resume_first_run_raises:
  assumes "files w (base @ ''/assets/resume_latex/resume.tex'') = Some tex"
    and "pdflatex (base @ ''/assets/resume_latex'') (files w) = (Inl e, fs1)"
  shows "compile_latex_resume pdflatex base w =
           (False, w\<lparr>files := fs1,
                     st_errors := st_errors w @
                       [''Error during compilation: '' @ exn_message e]\<rparr>)"
  using assms by (simp add: compile_latex_resume_def compile_failed_def Let_def)

text \<open>
  C7 fails on the code. With the example compiler the first run succeeds and the second
  run fails, yet \<^verbatim>\<open>compile_latex_resume\<close> returns \<^verbatim>\<open>True\<close>, shows no error, and
  the earlier \<^verbatim>\<open>assets/resume.pdf\<close> has been overwritten by the damaged output of the
  failed run.
\<close>

theorem compile_latex_resume_second_run_unchecked:
  "files resume_world ''/app/assets/resume.pdf'' = Some ''%PDF earlier'' \<and>
   fst (compile_latex_resume second_run_fails ''/app'' resume_world) = True \<and>
   files (snd (compile_latex_resume second_run_fails ''/app'' resume_world))
     ''/app/assets/resume.pdf'' = Some ''%PDF damaged'' \<and>
   st_errors (snd (compile_latex_resume second_run_fails ''/app'' resume_world)) = []"
  by code_simp

section \<open>Properties of the template round trip\<close>

lemma utf8_encode_char_scalar:
  "(\<exists>bs. utf8_encode_char c = Inr bs) \<longleftrightarrow> scalar_value c"
  by (auto simp: utf8_encode_char_def scalar_value_def)

lemma of_char_lead: "n < 256 \<Longrightarrow> (of_char (char_of (n :: nat)) :: nat) = n"
  by simp

lemma payload_char: "k < 64 \<Longrightarrow> payload (char_of (0x80 + k :: nat)) = k"
  by (simp add: payload_def)

lemma continuation_char: "k < 64 \<Longrightarrow> continuation (char_of (0x80 + k :: nat))"
  by (simp add: continuation_def)

lemma split3: "c div 4096 * 4096 + (c div 64) mod 64 * 64 + c mod 64 = (c :: nat)"
proof -
  have "c div 64 div 64 = c div 4096" by (simp add: div_mult2_eq [symmetric])
  then have "c div 4096 * 64 + (c div 64) mod 64 = c div 64"
    by (metis div_mult_mod_eq)
  then have "(c div 4096 * 64 + (c div 64) mod 64) * 64 + c mod 64 = c" by simp
  then show ?thesis by (simp add: algebra_simps)
qed

lemma split4:
  "c div 262144 * 262144 + (c div 4096) mod 64 * 4096 + (c div 64) mod 64 * 64 + c mod 64 = (c :: nat)"
proof -
  have "c div 4096 div 64 = c div 262144" by (simp add: div_mult2_eq [symmetric])
  then have "c div 262144 * 64 + (c div 4096) mod 64 = c div 4096"
    by (metis div_mult_mod_eq)
  then have "(c div 262144 * 64 + (c div 4096) mod 64) * 4096 = c div 4096 * 4096" by simp
  then have "c div 262144 * 262144 + (c div 4096) mod 64 * 4096 = c div 4096 * 4096"
    by (simp add: algebra_simps)
  with split3 [of c] show ?thesis by simp
qed

lemma utf8_decode_encode_char:
  assumes "utf8_encode_char c = Inr bs"
  shows "utf8_decode (bs @ rest) =
           (case utf8_decode rest of Inl e \<Rightarrow> Inl e | Inr cs \<Rightarrow> Inr (c # cs))"
proof -
  consider (one) "c < 0x80" | (two) "0x80 \<le> c" "c < 0x800"
    | (three) "0x800 \<le> c" "c < 0x10000" "\<not> (0xD800 \<le> c \<and> c \<le> 0xDFFF)"
    | (four) "0x10000 \<le> c" "c < 0x110000"
    using assms by (auto simp: utf8_encode_char_def split: if_splits)
  then show ?thesis
  proof cases
    case one
    with assms have "bs = [char_of c]" by (simp add: utf8_encode_char_def)
    with one show ?thesis by (simp add: Let_def)
  next
    case two
    with assms have bs: "bs = [char_of (0xC0 + c div 64), char_of (0x80 + c mod 64)]"
      by (simp add: utf8_encode_char_def)
    from two have d: "c div 64 < 32" "2 \<le> c div 64" by simp_all
    then have n0: "(of_char (char_of (0xC0 + c div 64 :: nat)) :: nat) = 0xC0 + c div 64"
      by (intro of_char_lead) simp
    have v: "c div 64 * 64 + payload (char_of (0x80 + c mod 64)) = c"
      by (simp add: payload_char)
    show ?thesis
      unfolding bs using d
      by (cases "utf8_decode rest")
         (simp_all add: Let_def n0 v continuation_char del: of_char_of)
  next
    case three
    with assms have bs: "bs = [char_of (0xE0 + c div 4096), char_of (0x80 + (c div 64) mod 64),
                   char_of (0x80 + c mod 64)]"
      by (simp add: utf8_encode_char_def)
    from three have d: "c div 4096 < 16" by simp
    then have n0: "(of_char (char_of (0xE0 + c div 4096 :: nat)) :: nat) = 0xE0 + c div 4096"
      by (intro of_char_lead) simp
    have v: "c div 4096 * 4096 + payload (char_of (0x80 + (c div 64) mod 64)) * 64
               + payload (char_of (0x80 + c mod 64)) = c"
      by (simp add: payload_char split3)
    show ?thesis
      unfolding bs using d three
      by (cases "utf8_decode rest")
         (simp_all add: Let_def n0 v continuation_char del: of_char_of)
  next
    case four
    with assms have bs: "bs = [char_of (0xF0 + c div 262144), char_of (0x80 + (c div 4096) mod 64),
             char_of (0x80 + (c div 64) mod 64), char_of (0x80 + c mod 64)]"
      by (simp add: utf8_encode_char_def)
    from four have d: "c div 262144 < 5" by simp
    then have n0: "(of_char (char_of (0xF0 + c div 262144 :: nat)) :: nat) = 0xF0 + c div 262144"
      by (intro of_char_lead) simp
    have v: "c div 262144 * 262144
               + payload (char_of (0x80 + (c div 4096) mod 64)) * 4096
               + payload (char_of (0x80 + (c div 64) mod 64)) * 64
               + payload (char_of (0x80 + c mod 64)) = c"
      by (simp add: payload_char split4)
    show ?thesis
      unfolding bs using d four
      by (cases "utf8_decode rest")
         (simp_all add: Let_def n0 v continuation_char del: of_char_of)
  qed
qed

lemma utf8_decode_encode:
  "utf8_encode s = Inr bs \<Longrightarrow> utf8_decode bs = Inr s"
proof (induction s arbitrary: bs)
  case Nil
  then show ?case by simp
next
  case (Cons c cs)
  from Cons.prems obtain b rest where b: "utf8_encode_char c = Inr b"
    and rest: "utf8_encode cs = Inr rest" and bs: "bs = b @ rest"
    by (auto split: sum.splits)
  from Cons.IH [OF rest] utf8_decode_encode_char [OF b, of rest] bs
  show ?case by simp
qed

lemma utf8_encode_scalar:
  "(\<exists>bs. utf8_encode s = Inr bs) \<longleftrightarrow> (\<forall>c \<in> set s. scalar_value c)"
proof (induction s)
  case Nil
  show ?case by simp
next
  case (Cons c cs)
  show ?case
    using Cons.IH utf8_encode_char_scalar [of c]
    by (auto split: sum.splits)
qed

lemma universal_newlines_other:
  "c \<noteq> 13 \<Longrightarrow> universal_newlines (c # cs) = c # universal_newlines cs"
  by (cases cs) simp_all

lemma universal_newlines_no_cr:
  "13 \<notin> set s \<Longrightarrow> universal_newlines s = s"
  by (induction s) (simp_all add: universal_newlines_other)

lemma universal_newlines_crlf:
  "13 \<notin> set s \<Longrightarrow> universal_newlines (translate_newlines_out [13, 10] s) = s"
proof (induction s)
  case Nil
  show ?case by (simp add: translate_newlines_out_def)
next
  case (Cons c cs)
  then have IH: "universal_newlines (translate_newlines_out [13, 10] cs) = cs"
    and c: "c \<noteq> 13" by auto
  show ?case
  proof (cases "c = 10")
    case True
    with IH show ?thesis by (simp add: translate_newlines_out_def)
  next
    case False
    with c IH show ?thesis
      by (simp add: translate_newlines_out_def universal_newlines_other)
  qed
qed

lemma translate_newlines_out_lf: "translate_newlines_out [10] s = s"
  by (induction s) (simp_all add: translate_newlines_out_def)

lemma text_roundtrip:
  assumes "13 \<notin> set s" and "sep = [10] \<or> sep = [13, 10]"
  shows "universal_newlines (translate_newlines_out sep s) = s"
  using assms
  by (auto simp: translate_newlines_out_lf universal_newlines_no_cr universal_newlines_crlf)

lemma scalar_translate:
  assumes "\<forall>c \<in> set s. scalar_value c" and "sep = [10] \<or> sep = [13, 10]"
  shows "\<forall>c \<in> set (translate_newlines_out sep s). scalar_value c"
  using assms by (auto simp: translate_newlines_out_def scalar_value_def split: if_splits)

lemma write_text_ok:
  assumes "utf8_encode (translate_newlines_out (linesep w) content) = Inr bs"
  shows "write_text p content w = (None, w\<lparr>files := (files w)(resolve w p \<mapsto> bs)\<rparr>)"
  using assms by (simp add: write_text_def)

lemma resolve_absolute: "resolve w (CHR ''/'' # p) = CHR ''/'' # p"
  by (simp add: resolve_def)

lemma resolve_relative:
  "resolve w ''assets/resume_latex/resume.tex'' = cwd w @ ''/assets/resume_latex/resume.tex''"
  by (simp add: resolve_def)

text \<open>
  C8 as stated fails. Saving the three characters a, carriage return, b writes exactly
  these three bytes, and reading the file back yields a, line feed, b: universal newlines
  turn the carriage return into a line feed.
\<close>

theorem save_latex_template_roundtrip_counterexample:
  "fst (save_latex_template [] ''/app'' (Some [97, 13, 98]) resume_world) = True \<and>
   files (snd (save_latex_template [] ''/app'' (Some [97, 13, 98]) resume_world))
     ''/app/assets/resume_latex/resume.tex'' = Some [char_of (97 :: nat), char_of (13 :: nat), char_of (98 :: nat)] \<and>
   load_latex_source (snd (save_latex_template [] ''/app'' (Some [97, 13, 98]) resume_world))
     = Inr [97, 10, 98] \<and>
   load_latex_source (snd (save_latex_template [] ''/app'' (Some [97, 13, 98]) resume_world))
     \<noteq> Inr [97, 13, 98]"
  by (simp add: save_latex_template_def write_text_def translate_newlines_out_def
        utf8_encode_char_def resume_world_def resolve_def load_latex_source_def read_text_def
        Let_def)

text \<open>
  C8, amended. When the working directory is the (absolute) base path, the content has no
  carriage return and every code point of it can be encoded in UTF-8, then on a platform
  whose line separator is LF or CR LF \<^verbatim>\<open>save_latex_template\<close> returns \<^verbatim>\<open>True\<close> without
  showing an error, and reading \<^verbatim>\<open>assets/resume_latex/resume.tex\<close> back yields
  exactly the content that was saved.
\<close>

theorem save_latex_template_roundtrip:
  assumes abs: "base = CHR ''/'' # dir"
    and cwd: "cwd w = base"
    and cr: "13 \<notin> set content"
    and enc: "\<forall>c \<in> set content. scalar_value c"
    and sep: "linesep w = [10] \<or> linesep w = [13, 10]"
  shows "\<exists>w'. save_latex_template template base (Some content) w = (True, w') \<and>
           load_latex_source w' = Inr content \<and>
           st_errors w' = st_errors w"
proof -
  let ?p = "base @ ''/assets/resume_latex/resume.tex''"
  from enc sep have "\<forall>c \<in> set (translate_newlines_out (linesep w) content). scalar_value c"
    by (rule scalar_translate)
  then obtain bs where bs: "utf8_encode (translate_newlines_out (linesep w) content) = Inr bs"
    using utf8_encode_scalar by blast
  have dec: "utf8_decode bs = Inr (translate_newlines_out (linesep w) content)"
    using bs by (rule utf8_decode_encode)
  have nl: "universal_newlines (translate_newlines_out (linesep w) content) = content"
    using cr sep by (rule text_roundtrip)
  have rp: "resolve w ?p = ?p" using abs by (simp add: resolve_def)
  let ?w' = "w\<lparr>files := (files w)(?p \<mapsto> bs)\<rparr>"
  have save: "save_latex_template template base (Some content) w = (True, ?w')"
    by (simp add: save_latex_template_def Let_def write_text_ok [OF bs] rp)
  have load: "load_latex_source ?w' = Inr content"
    by (simp add: load_latex_source_def read_text_def resolve_relative cwd dec nl)
  from save load show ?thesis by (intro exI [of _ ?w']) simp
qed

text \<open>
  On the example world, for a text with one-, two-, three- and four-byte characters and a
  line feed, under both line separators.
\<close>

theorem save_latex_template_roundtrip_witness:
  "cwd resume_world = ''/app'' \<and>
   13 \<notin> set [97, 233, 8364, 128512, 10, 98 :: nat] \<and>
   list_all scalar_value [97, 233, 8364, 128512, 10, 98] \<and>
   (\<exists>w'. save_latex_template [] ''/app'' (Some [97, 233, 8364, 128512, 10, 98]) resume_world
            = (True, w') \<and>
          load_latex_source w' = Inr [97, 233, 8364, 128512, 10, 98]) \<and>
   (\<exists>w'. save_latex_template [] ''/app'' (Some [97, 233, 8364, 128512, 10, 98])
            (resume_world\<lparr>linesep := [13, 10]\<rparr>) = (True, w') \<and>
          load_latex_source w' = Inr [97, 233, 8364, 128512, 10, 98])"
proof -
  let ?s = "[97, 233, 8364, 128512, 10, 98 :: nat]"
  have abs: "''/app'' = CHR ''/'' # ''app''" by simp
  have cwd: "cwd resume_world = ''/app''" "cwd (resume_world\<lparr>linesep := [13, 10]\<rparr>) = ''/app''"
    by (simp_all add: resume_world_def)
  have cr: "13 \<notin> set ?s" by simp
  have enc: "\<forall>c \<in> set ?s. scalar_value c" by (simp add: scalar_value_def)
  have sep: "linesep resume_world = [10] \<or> linesep resume_world = [13, 10]"
    "linesep (resume_world\<lparr>linesep := [13, 10]\<rparr>) = [10] \<or>
     linesep (resume_world\<lparr>linesep := [13, 10]\<rparr>) = [13, 10]"
    by (simp_all add: resume_world_def)
  from save_latex_template_roundtrip [OF abs cwd(1) cr enc sep(1), of "[]"]
  have a: "\<exists>w'. save_latex_template [] ''/app'' (Some ?s) resume_world = (True, w') \<and>
          load_latex_source w' = Inr ?s" by blast
  from save_latex_template_roundtrip [OF abs cwd(2) cr enc sep(2), of "[]"]
  have b: "\<exists>w'. save_latex_template [] ''/app'' (Some ?s)
            (resume_world\<lparr>linesep := [13, 10]\<rparr>) = (True, w') \<and>
          load_latex_source w' = Inr ?s" by blast
  from enc have l: "list_all scalar_value ?s" by (simp only: list_all_iff)
  from cwd(1) cr l a b show ?thesis by (intro conjI)
qed

end
